theory Spec2Isabelle
  imports Main "HOL-Library.AList"
begin

section \<open>Python values, dictionaries and exceptions\<close>

text \<open>
  The handlers of \<^verbatim>\<open>main.py\<close> pass loosely typed dictionaries around: the claim set of
  a token and the documents of the \<^verbatim>\<open>playeruser\<close> collection. A dictionary is an
  association list in insertion order; \<^verbatim>\<open>d.get(k)\<close> is a lookup that yields
  \<^verbatim>\<open>None\<close> for a missing key and \<^verbatim>\<open>d.update({k: v})\<close> replaces the value of
  a key in place or appends the pair. A \<^verbatim>\<open>datetime\<close> is its number of microseconds
  since the epoch, an \<^verbatim>\<open>ObjectId\<close> its hexadecimal text.
\<close>

datatype pyval =
    PNone
  | PBool bool
  | PInt int
  | PStr string
  | PList "pyval list"
  | PDatetime int
  | PObjectId string

type_synonym pydict = "(string \<times> pyval) list"

definition dict_get :: "pydict \<Rightarrow> string \<Rightarrow> pyval" where
  "dict_get d k = (case map_of d k of None \<Rightarrow> PNone | Some v \<Rightarrow> v)"

definition dict_get_default :: "pydict \<Rightarrow> string \<Rightarrow> pyval \<Rightarrow> pyval" where
  "dict_get_default d k dflt = (case map_of d k of None \<Rightarrow> dflt | Some v \<Rightarrow> v)"

definition dict_update :: "string \<Rightarrow> pyval \<Rightarrow> pydict \<Rightarrow> pydict" where
  "dict_update k v d = AList.update k v d"

text \<open>Truthiness, as \<^verbatim>\<open>if not x\<close> tests it.\<close>

fun truthy :: "pyval \<Rightarrow> bool" where
  "truthy PNone = False"
| "truthy (PBool b) = b"
| "truthy (PInt n) = (n \<noteq> 0)"
| "truthy (PStr s) = (s \<noteq> [])"
| "truthy (PList xs) = (xs \<noteq> [])"
| "truthy (PDatetime t) = True"
| "truthy (PObjectId h) = True"

text \<open>
  Every \<^verbatim>\<open>raise\<close> is a value. \<open>HTTPException\<close> carries the status code and the
  detail text; the other exceptions are raised by the libraries and are caught nowhere in
  \<^verbatim>\<open>main.py\<close> except \<open>JWTError\<close> in \<^verbatim>\<open>me\<close>. The framework answers an
  exception that is not an \<open>HTTPException\<close> with status 500.
\<close>

datatype exn =
    HTTPException int string
  | JWTError
  | JWSError
  | TypeError
  | UnknownHashError
  | ValidationError
  | DuplicateKeyError
  | HasherError string

fun http_status :: "exn \<Rightarrow> int" where
  "http_status (HTTPException code detail) = code"
| "http_status e = 500"

text \<open>
  The detail texts of \<^verbatim>\<open>register\<close>, \<^verbatim>\<open>login\<close> and \<^verbatim>\<open>me\<close> are Cyrillic;
  they are kept as their UTF-8 bytes.
\<close>

definition DETAIL_EMAIL_REGISTERED :: string where
  "DETAIL_EMAIL_REGISTERED = map char_of
     [208, 159, 208, 190, 209, 135, 209, 130, 208, 176, 32, 209, 131, 208, 182, 208, 181, 32,
      208, 183, 208, 176, 209, 128, 208, 181, 208, 179, 208, 184, 209, 129, 209, 130, 209, 128,
      208, 184, 209, 128, 208, 190, 208, 178, 208, 176, 208, 189, 208, 176 :: nat]"

definition DETAIL_BAD_LOGIN :: string where
  "DETAIL_BAD_LOGIN = map char_of
     [208, 157, 208, 181, 208, 178, 208, 181, 209, 128, 208, 189, 209, 139, 208, 181, 32,
      208, 180, 208, 176, 208, 189, 208, 189, 209, 139, 208, 181, 32, 208, 180, 208, 187, 209,
      143, 32, 208, 178, 209, 133, 208, 190, 208, 180, 208, 176 :: nat]"

definition DETAIL_USER_NOT_FOUND :: string where
  "DETAIL_USER_NOT_FOUND = map char_of
     [208, 159, 208, 190, 208, 187, 209, 140, 208, 183, 208, 190, 208, 178, 208, 176, 209, 130,
      208, 181, 208, 187, 209, 140, 32, 208, 189, 208, 181, 32, 208, 189, 208, 176, 208, 185,
      208, 180, 208, 181, 208, 189 :: nat]"

section \<open>Configuration and libraries\<close>

text \<open>
  \<^verbatim>\<open>main.py\<close> reads its secret from the environment and delegates to three libraries
  whose code is not part of the repository. What the handlers need of them is gathered in
  one record, passed to every function that uses it:
  \<^item> \<open>SECRET_KEY\<close>: the value of \<^verbatim>\<open>os.getenv("SECRET_KEY", ...)\<close>;
  \<^item> \<open>bcrypt_hash\<close>: the bcrypt handler's \<^verbatim>\<open>hash\<close>, from the entropy it draws for
    the salt and the password;
  \<^item> \<open>bcrypt_verify\<close>: the bcrypt handler's \<^verbatim>\<open>verify\<close> of a password against a
    hash string that carries a bcrypt identifier;
  \<^item> \<open>email_validator\<close>: the validation behind pydantic's \<^verbatim>\<open>EmailStr\<close>, which
    yields the normalised address or fails;
  \<^item> \<open>py_str\<close>: Python's built-in \<^verbatim>\<open>str()\<close>.
\<close>

record platform =
  SECRET_KEY :: string
  bcrypt_hash :: "string \<Rightarrow> string \<Rightarrow> exn + string"
  bcrypt_verify :: "string \<Rightarrow> string \<Rightarrow> exn + bool"
  email_validator :: "string \<Rightarrow> string option"
  py_str :: "pyval \<Rightarrow> string"

definition ALGORITHM :: string where
  "ALGORITHM = ''HS256''"

definition ACCESS_TOKEN_EXPIRE_MINUTES :: int where
  "ACCESS_TOKEN_EXPIRE_MINUTES = 60 * 24 * 7"

subsection \<open>The password context\<close>

text \<open>
  \<^verbatim>\<open>pwd_context = CryptContext(schemes=["bcrypt"], deprecated="auto")\<close>. Its
  \<^verbatim>\<open>verify\<close> answers \<open>False\<close> for the hash \<^verbatim>\<open>None\<close>, refuses a hash that is
  not text, and raises \<open>UnknownHashError\<close> for a text that no configured scheme
  identifies; bcrypt identifies a hash by one of its five prefixes.
\<close>

definition bcrypt_idents :: "string list" where
  "bcrypt_idents = [''$2$'', ''$2a$'', ''$2x$'', ''$2y$'', ''$2b$'']"

definition bcrypt_identify :: "string \<Rightarrow> bool" where
  "bcrypt_identify h = list_ex (\<lambda>p. take (length p) h = p) bcrypt_idents"

definition pwd_context_hash :: "platform \<Rightarrow> string \<Rightarrow> string \<Rightarrow> exn + string" where
  "pwd_context_hash P entropy secret = bcrypt_hash P entropy secret"

definition pwd_context_verify :: "platform \<Rightarrow> string \<Rightarrow> pyval \<Rightarrow> exn + bool" where
  "pwd_context_verify P secret h =
     (case h of
        PNone \<Rightarrow> Inr False
      | PStr s \<Rightarrow> (if bcrypt_identify s then bcrypt_verify P secret s else Inl UnknownHashError)
      | _ \<Rightarrow> Inl TypeError)"

subsection \<open>Signed tokens\<close>

text \<open>
  A token is symbolic: \<open>JWS alg k claims\<close> is the compact serialisation whose header
  names \<open>alg\<close>, whose payload is \<open>claims\<close> and whose signature was computed with the key
  \<open>k\<close>; a signature verifies under a key exactly when it was computed with it. Any other
  text is \<open>Malformed\<close>.
\<close>

datatype token = Malformed string | JWS string string pydict

fun json_serializable :: "pyval \<Rightarrow> bool" where
  "json_serializable PNone = True"
| "json_serializable (PBool b) = True"
| "json_serializable (PInt n) = True"
| "json_serializable (PStr s) = True"
| "json_serializable (PList xs) = list_all json_serializable xs"
| "json_serializable (PDatetime t) = False"
| "json_serializable (PObjectId h) = False"

text \<open>\<^verbatim>\<open>timegm(d.utctimetuple())\<close>: whole seconds, the microseconds dropped.\<close>

definition timegm :: "int \<Rightarrow> int" where
  "timegm t = t div 1000000"

definition int_date :: "string \<times> pyval \<Rightarrow> string \<times> pyval" where
  "int_date kv =
     (case kv of
        (k, PDatetime t) \<Rightarrow> (if k \<in> set [''exp'', ''iat'', ''nbf''] then (k, PInt (timegm t)) else kv)
      | _ \<Rightarrow> kv)"

definition jws_algorithms :: "string list" where
  "jws_algorithms = [''HS256'', ''HS384'', ''HS512'', ''RS256'', ''RS384'', ''RS512'',
                     ''ES256'', ''ES384'', ''ES512'']"

text \<open>
  \<^verbatim>\<open>jwt.encode(claims, key, algorithm)\<close>: the datetimes of the time claims become
  integers, then the claim set is written as JSON and signed.
\<close>

definition jwt_encode :: "pydict \<Rightarrow> string \<Rightarrow> string \<Rightarrow> exn + token" where
  "jwt_encode claims k alg =
     (let claims' = map int_date claims in
      if alg \<notin> set jws_algorithms then Inl JWSError
      else if \<not> list_all (\<lambda>kv. json_serializable (snd kv)) claims' then Inl TypeError
      else Inr (JWS alg k claims'))"

text \<open>
  Python's \<^verbatim>\<open>int(x)\<close> on a claim: a \<open>ValueError\<close> becomes the library's claims error
  (a \<open>JWTError\<close>), a \<open>TypeError\<close> is not caught by the library. Of the texts only plain
  decimal digits are read as numbers here.
\<close>

definition digits_value :: "string \<Rightarrow> int option" where
  "digits_value s =
     (if s \<noteq> [] \<and> list_all (\<lambda>c. c \<in> set ''0123456789'') s
      then Some (foldl (\<lambda>a c. 10 * a + (int (of_char c) - 48)) 0 s)
      else None)"

fun py_int :: "pyval \<Rightarrow> exn + int" where
  "py_int (PInt n) = Inr n"
| "py_int (PBool b) = Inr (if b then 1 else 0)"
| "py_int (PStr s) = (case digits_value s of Some n \<Rightarrow> Inr n | None \<Rightarrow> Inl JWTError)"
| "py_int v = Inl TypeError"

definition is_str :: "pyval \<Rightarrow> bool" where
  "is_str v = (case v of PStr s \<Rightarrow> True | _ \<Rightarrow> False)"

text \<open>
  The checks of the registered claims that \<^verbatim>\<open>jwt.decode\<close> runs with its default
  options and no audience, issuer, subject or access token given, in the library's order:
  \<open>iat\<close>, \<open>nbf\<close>, \<open>exp\<close>, \<open>aud\<close>, \<open>sub\<close>, \<open>jti\<close>, \<open>at_hash\<close>. \<open>now\<close> is the
  clock in whole seconds.
\<close>

definition validate_iat :: "pydict \<Rightarrow> exn + unit" where
  "validate_iat claims =
     (case map_of claims ''iat'' of
        None \<Rightarrow> Inr ()
      | Some v \<Rightarrow> (case py_int v of Inl e \<Rightarrow> Inl e | Inr n \<Rightarrow> Inr ()))"

definition validate_nbf :: "int \<Rightarrow> pydict \<Rightarrow> exn + unit" where
  "validate_nbf now claims =
     (case map_of claims ''nbf'' of
        None \<Rightarrow> Inr ()
      | Some v \<Rightarrow> (case py_int v of Inl e \<Rightarrow> Inl e
                   | Inr nbf \<Rightarrow> if nbf > now then Inl JWTError else Inr ()))"

definition validate_exp :: "int \<Rightarrow> pydict \<Rightarrow> exn + unit" where
  "validate_exp now claims =
     (case map_of claims ''exp'' of
        None \<Rightarrow> Inr ()
      | Some v \<Rightarrow> (case py_int v of Inl e \<Rightarrow> Inl e
                   | Inr ex \<Rightarrow> if ex < now then Inl JWTError else Inr ()))"

definition validate_aud :: "pydict \<Rightarrow> exn + unit" where
  "validate_aud claims =
     (case map_of claims ''aud'' of None \<Rightarrow> Inr () | Some v \<Rightarrow> Inl JWTError)"

definition validate_text_claim :: "string \<Rightarrow> pydict \<Rightarrow> exn + unit" where
  "validate_text_claim k claims =
     (case map_of claims k of
        None \<Rightarrow> Inr ()
      | Some v \<Rightarrow> if is_str v then Inr () else Inl JWTError)"

definition validate_at_hash :: "pydict \<Rightarrow> exn + unit" where
  "validate_at_hash claims =
     (case map_of claims ''at_hash'' of None \<Rightarrow> Inr () | Some v \<Rightarrow> Inl JWTError)"

fun first_failure :: "(exn + unit) list \<Rightarrow> exn + unit" where
  "first_failure [] = Inr ()"
| "first_failure (Inl e # rs) = Inl e"
| "first_failure (Inr u # rs) = first_failure rs"

definition validate_claims :: "int \<Rightarrow> pydict \<Rightarrow> exn + unit" where
  "validate_claims now claims =
     first_failure
       [validate_iat claims, validate_nbf now claims, validate_exp now claims,
        validate_aud claims, validate_text_claim ''sub'' claims,
        validate_text_claim ''jti'' claims, validate_at_hash claims]"

text \<open>
  \<^verbatim>\<open>jwt.decode(token, key, algorithms=[...])\<close> at the clock reading \<open>clock\<close>
  (microseconds): the structure, the algorithm of the header, the signature, then the
  claims.
\<close>

definition jwt_decode :: "int \<Rightarrow> token \<Rightarrow> string \<Rightarrow> string list \<Rightarrow> exn + pydict" where
  "jwt_decode clock tok k algorithms =
     (case tok of
        Malformed s \<Rightarrow> Inl JWTError
      | JWS alg k' claims \<Rightarrow>
          if alg \<notin> set algorithms then Inl JWTError
          else if k' \<noteq> k then Inl JWTError
          else (case validate_claims (timegm clock) claims of
                  Inl e \<Rightarrow> Inl e
                | Inr u \<Rightarrow> Inr claims))"

section \<open>The document store\<close>

text \<open>
  \<^verbatim>\<open>db\<close> is the handle imported from the module \<^verbatim>\<open>database\<close>: \<open>None\<close> when no
  database is configured, otherwise the database, of which the handlers use the one
  collection \<^verbatim>\<open>playeruser\<close>, a list of documents.
\<close>

type_synonym collection = "pydict list"

type_synonym db = "collection option"

text \<open>
  Modelled from the spec: \<^verbatim>\<open>find_one\<close> of the store (the module \<^verbatim>\<open>database\<close>
  and the collection behind it are not among the sources). The spec's contract is
  \<open>findByEmail(email) -> User | NotFound\<close>; the call in \<^verbatim>\<open>main.py\<close> is
  \<^verbatim>\<open>find_one({"email": email})\<close>, which yields the first document whose \<open>email\<close>
  field equals the value, or \<open>None\<close>.
\<close>

definition find_one :: "collection \<Rightarrow> pyval \<Rightarrow> pydict option" where
  "find_one c email = List.find (\<lambda>d. map_of d ''email'' = Some email) c"

text \<open>A stored document receives the fresh \<open>_id\<close> unless it brings one.\<close>

definition with_id :: "pydict \<Rightarrow> string \<Rightarrow> pydict" where
  "with_id d oid = (if map_of d ''_id'' = None then d @ [(''_id'', PObjectId oid)] else d)"

text \<open>
  Modelled from the spec: \<^verbatim>\<open>insert_one\<close> of the store (not among the sources, as
  above). The spec's contract is \<open>insert(user) -> Created | Conflict\<close>, a conflict when
  the email is already present; the driver reports a conflict by raising
  \<open>DuplicateKeyError\<close>.
\<close>

definition insert_one :: "collection \<Rightarrow> pydict \<Rightarrow> string \<Rightarrow> exn + collection" where
  "insert_one c d oid =
     (case map_of d ''email'' of
        None \<Rightarrow> Inr (c @ [with_id d oid])
      | Some e \<Rightarrow>
          if find_one c e \<noteq> None then Inl DuplicateKeyError
          else Inr (c @ [with_id d oid]))"

section \<open>Request and response schemas\<close>

text \<open>
  The pydantic models of \<^verbatim>\<open>main.py\<close>. A request reaches its handler validated, so
  the email of a request is text that \<^verbatim>\<open>EmailStr\<close> accepted; \<open>password\<close> and
  \<open>nickname\<close> are declared \<^verbatim>\<open>str\<close> with no further constraint.
\<close>

record RegisterRequest =
  reg_email :: string
  reg_password :: string
  reg_nickname :: string
  reg_avatar_url :: "string option"

record LoginRequest =
  login_email :: string
  login_password :: string

record TokenResponse =
  access_token :: token
  token_type :: string

record ProfileResponse =
  profile_id :: string
  profile_email :: string
  profile_nickname :: string
  profile_avatar_url :: "string option"
  profile_roles :: "string list"

record TokenPayload =
  payload_token :: token

text \<open>
  Building a \<open>ProfileResponse\<close> validates each argument against the declared type of its
  field: \<^verbatim>\<open>str\<close> takes text, \<^verbatim>\<open>Optional[str]\<close> text or \<open>None\<close>,
  \<^verbatim>\<open>list[str]\<close> a list of texts, \<^verbatim>\<open>EmailStr\<close> text that the email validator
  accepts.
\<close>

definition str_field :: "pyval \<Rightarrow> string option" where
  "str_field v = (case v of PStr s \<Rightarrow> Some s | _ \<Rightarrow> None)"

definition optional_str_field :: "pyval \<Rightarrow> string option option" where
  "optional_str_field v = (case v of PNone \<Rightarrow> Some None | PStr s \<Rightarrow> Some (Some s) | _ \<Rightarrow> None)"

definition list_str_field :: "pyval \<Rightarrow> string list option" where
  "list_str_field v =
     (case v of
        PList xs \<Rightarrow> if list_all is_str xs then Some (List.map_filter str_field xs) else None
      | _ \<Rightarrow> None)"

definition email_field :: "platform \<Rightarrow> pyval \<Rightarrow> string option" where
  "email_field P v = (case v of PStr s \<Rightarrow> email_validator P s | _ \<Rightarrow> None)"

definition new_ProfileResponse ::
  "platform \<Rightarrow> string \<Rightarrow> pyval \<Rightarrow> pyval \<Rightarrow> pyval \<Rightarrow> pyval \<Rightarrow> exn + ProfileResponse" where
  "new_ProfileResponse P i e n a r =
     (case (email_field P e, str_field n, optional_str_field a, list_str_field r) of
        (Some e', Some n', Some a', Some r') \<Rightarrow>
          Inr \<lparr>profile_id = i, profile_email = e', profile_nickname = n',
               profile_avatar_url = a', profile_roles = r'\<rparr>
      | _ \<Rightarrow> Inl ValidationError)"

text \<open>The body the framework writes for a \<open>ProfileResponse\<close>: one entry per field.\<close>

definition profile_body :: "ProfileResponse \<Rightarrow> pydict" where
  "profile_body p =
     [(''id'', PStr (profile_id p)),
      (''email'', PStr (profile_email p)),
      (''nickname'', PStr (profile_nickname p)),
      (''avatar_url'', (case profile_avatar_url p of None \<Rightarrow> PNone | Some u \<Rightarrow> PStr u)),
      (''roles'', PList (map PStr (profile_roles p)))]"

section \<open>Helpers of the application\<close>

definition get_user_by_email :: "db \<Rightarrow> pyval \<Rightarrow> exn + pydict option" where
  "get_user_by_email d email =
     (case d of
        None \<Rightarrow> Inl (HTTPException 500 ''Database not configured'')
      | Some c \<Rightarrow> Inr (find_one c email))"

definition hash_password :: "platform \<Rightarrow> string \<Rightarrow> string \<Rightarrow> exn + string" where
  "hash_password P entropy password = pwd_context_hash P entropy password"

definition verify_password :: "platform \<Rightarrow> string \<Rightarrow> pyval \<Rightarrow> exn + bool" where
  "verify_password P password password_hash = pwd_context_verify P password password_hash"

text \<open>\<open>clock\<close> is the reading of \<^verbatim>\<open>datetime.now(timezone.utc)\<close> in line 68.\<close>

definition to_encode :: "int \<Rightarrow> pydict \<Rightarrow> pydict" where
  "to_encode clock data = dict_update ''exp'' (PDatetime clock) data"

definition create_access_token :: "platform \<Rightarrow> int \<Rightarrow> pydict \<Rightarrow> exn + token" where
  "create_access_token P clock data = jwt_encode (to_encode clock data) (SECRET_KEY P) ALGORITHM"

definition user_to_profile :: "platform \<Rightarrow> pydict \<Rightarrow> exn + ProfileResponse" where
  "user_to_profile P d =
     new_ProfileResponse P
       (py_str P (dict_get d ''_id''))
       (dict_get d ''email'')
       (dict_get d ''nickname'')
       (dict_get d ''avatar_url'')
       (dict_get_default d ''roles'' (PList [PStr ''player'']))"

text \<open>A document is true in a condition unless it is \<open>None\<close> or empty.\<close>

definition found :: "pydict option \<Rightarrow> bool" where
  "found u = (case u of None \<Rightarrow> False | Some d \<Rightarrow> d \<noteq> [])"

section \<open>Routes\<close>

text \<open>
  What a call of \<^verbatim>\<open>register\<close> takes from outside: the entropy of the salt, the three
  clock readings (lines 132, 133 and 68), and the identifier the store gives the new
  document.
\<close>

record effects =
  entropy :: string
  clock_created :: int
  clock_updated :: int
  clock_token :: int
  fresh_oid :: string

definition user_doc :: "RegisterRequest \<Rightarrow> string \<Rightarrow> int \<Rightarrow> int \<Rightarrow> pydict" where
  "user_doc payload h created updated =
     [(''email'', PStr (reg_email payload)),
      (''password_hash'', PStr h),
      (''nickname'', PStr (reg_nickname payload)),
      (''avatar_url'', (case reg_avatar_url payload of None \<Rightarrow> PNone | Some u \<Rightarrow> PStr u)),
      (''roles'', PList [PStr ''player'']),
      (''created_at'', PDatetime created),
      (''updated_at'', PDatetime updated)]"

text \<open>
  \<^verbatim>\<open>register\<close> reads the store, builds the document and then writes the store, with
  no lock in between: \<open>others\<close> is what concurrent requests did to the collection between
  the read and the write (the identity when the request runs alone). The result is the
  response or the exception, with the store as the call leaves it.
\<close>

definition register ::
  "platform \<Rightarrow> effects \<Rightarrow> (collection \<Rightarrow> collection) \<Rightarrow> db \<Rightarrow> RegisterRequest
     \<Rightarrow> (exn + TokenResponse) \<times> db" where
  "register P fx others d payload =
     (case get_user_by_email d (PStr (reg_email payload)) of
        Inl e \<Rightarrow> (Inl e, d)
      | Inr u \<Rightarrow>
          if found u then (Inl (HTTPException 400 DETAIL_EMAIL_REGISTERED), d)
          else
            (case hash_password P (entropy fx) (reg_password payload) of
               Inl e \<Rightarrow> (Inl e, d)
             | Inr h \<Rightarrow>
                 (case map_option others d of
                    None \<Rightarrow> (Inl TypeError, None)
                  | Some c \<Rightarrow>
                      (case insert_one c
                              (user_doc payload h (clock_created fx) (clock_updated fx))
                              (fresh_oid fx) of
                         Inl e \<Rightarrow> (Inl e, Some c)
                       | Inr c' \<Rightarrow>
                           (case create_access_token P (clock_token fx)
                                   [(''sub'', PStr (reg_email payload))] of
                              Inl e \<Rightarrow> (Inl e, Some c')
                            | Inr t \<Rightarrow>
                                (Inr \<lparr>access_token = t, token_type = ''bearer''\<rparr>, Some c'))))))"

definition login :: "platform \<Rightarrow> int \<Rightarrow> db \<Rightarrow> LoginRequest \<Rightarrow> exn + TokenResponse" where
  "login P clock d payload =
     (case get_user_by_email d (PStr (login_email payload)) of
        Inl e \<Rightarrow> Inl e
      | Inr u \<Rightarrow>
          (case (if found u then u else None) of
             None \<Rightarrow> Inl (HTTPException 401 DETAIL_BAD_LOGIN)
           | Some user \<Rightarrow>
               (case verify_password P (login_password payload)
                       (dict_get_default user ''password_hash'' (PStr [])) of
                  Inl e \<Rightarrow> Inl e
                | Inr ok \<Rightarrow>
                    if \<not> ok then Inl (HTTPException 401 DETAIL_BAD_LOGIN)
                    else
                      (case create_access_token P clock [(''sub'', PStr (login_email payload))] of
                         Inl e \<Rightarrow> Inl e
                       | Inr t \<Rightarrow> Inr \<lparr>access_token = t, token_type = ''bearer''\<rparr>))))"

text \<open>
  \<^verbatim>\<open>me\<close>: the \<^verbatim>\<open>try\<close> block yields the subject or an exception; only a
  \<open>JWTError\<close> is caught there and replaced, the \<open>HTTPException\<close> raised inside the block
  passes through. \<open>clock\<close> is the time at which the token is decoded.
\<close>

definition me_subject :: "platform \<Rightarrow> int \<Rightarrow> TokenPayload \<Rightarrow> exn + pyval" where
  "me_subject P clock payload =
     (case jwt_decode clock (payload_token payload) (SECRET_KEY P) [ALGORITHM] of
        Inl e \<Rightarrow> (if e = JWTError then Inl (HTTPException 401 ''Invalid token'') else Inl e)
      | Inr decoded \<Rightarrow>
          (let email = dict_get decoded ''sub'' in
           if \<not> truthy email then Inl (HTTPException 401 ''Invalid token'') else Inr email))"

definition me :: "platform \<Rightarrow> int \<Rightarrow> db \<Rightarrow> TokenPayload \<Rightarrow> exn + ProfileResponse" where
  "me P clock d payload =
     (case me_subject P clock payload of
        Inl e \<Rightarrow> Inl e
      | Inr email \<Rightarrow>
          (case get_user_by_email d email of
             Inl e \<Rightarrow> Inl e
           | Inr u \<Rightarrow>
               (case (if found u then u else None) of
                  None \<Rightarrow> Inl (HTTPException 404 DETAIL_USER_NOT_FOUND)
                | Some user \<Rightarrow> user_to_profile P user)))"

section \<open>A platform to run the handlers on\<close>

text \<open>
  A concrete platform for evaluating the handlers on examples: the secret is the default of
  \<^verbatim>\<open>main.py\<close>; the hasher is a stand-in that keeps the shape of a bcrypt hash string
  (identifier, cost, salt, digest) and is not bcrypt.
\<close>

definition sample_hash :: "string \<Rightarrow> string \<Rightarrow> exn + string" where
  "sample_hash salt secret = Inr (''$2b$12$'' @ salt @ ''.'' @ rev secret)"

definition sample_verify :: "string \<Rightarrow> string \<Rightarrow> exn + bool" where
  "sample_verify secret h = Inr (drop (length h - Suc (length secret)) h = ''.'' @ rev secret)"

definition sample_email :: "string \<Rightarrow> string option" where
  "sample_email s = (if CHR ''@'' \<in> set s then Some s else None)"

definition sample_str :: "pyval \<Rightarrow> string" where
  "sample_str v = (case v of PStr s \<Rightarrow> s | PObjectId h \<Rightarrow> h | _ \<Rightarrow> ''None'')"

definition sample_platform :: platform where
  "sample_platform =
     \<lparr>SECRET_KEY = ''dev-secret-key-change-me'',
      bcrypt_hash = sample_hash,
      bcrypt_verify = sample_verify,
      email_validator = sample_email,
      py_str = sample_str\<rparr>"

text \<open>The claim set a token carries; a text that is no token carries none.\<close>

definition signed_claims :: "token \<Rightarrow> pydict" where
  "signed_claims t = (case t of Malformed s \<Rightarrow> [] | JWS alg k claims \<Rightarrow> claims)"

text \<open>
  Example inputs: a registration request, the outside values of one call, a document that
  another request stored for the same email, and a document that lacks its password hash.
\<close>

definition alice_request :: RegisterRequest where
  "alice_request =
     \<lparr>reg_email = ''a@x.com'', reg_password = ''pw123'', reg_nickname = ''Alice'',
      reg_avatar_url = None\<rparr>"

definition sample_effects :: effects where
  "sample_effects =
     \<lparr>entropy = ''abcdefghijklmnopqrstuv'', clock_created = 1000000, clock_updated = 1000007,
      clock_token = 1000042, fresh_oid = ''65a0c0ffee''\<rparr>"

definition alice_doc :: pydict where
  "alice_doc =
     [(''email'', PStr ''a@x.com''),
      (''password_hash'', PStr ''$2b$12$abcdefghijklmnopqrstuv.321wp''),
      (''nickname'', PStr ''Alice''),
      (''avatar_url'', PNone),
      (''roles'', PList [PStr ''player'']),
      (''created_at'', PDatetime 1000000),
      (''updated_at'', PDatetime 1000007),
      (''_id'', PObjectId ''65a0c0ffee'')]"

definition rival_doc :: pydict where
  "rival_doc = [(''email'', PStr ''a@x.com''), (''nickname'', PStr ''Rival'')]"

text \<open>The profile of the example user.\<close>

definition alice_profile :: ProfileResponse where
  "alice_profile =
     \<lparr>profile_id = ''65a0c0ffee'', profile_email = ''a@x.com'', profile_nickname = ''Alice'',
      profile_avatar_url = None, profile_roles = [''player'']\<rparr>"

section \<open>Facts about the store and the helpers\<close>

lemma find_one_Some_email: "find_one c e = Some u \<Longrightarrow> map_of u ''email'' = Some e"
  by (auto simp: find_one_def find_Some_iff)

lemma find_one_found: "find_one c e = Some u \<Longrightarrow> found (Some u)"
  by (drule find_one_Some_email) (auto simp: found_def)

lemma find_one_None_filter:
  "find_one c e = None \<Longrightarrow> filter (\<lambda>doc. map_of doc ''email'' = Some e) c = []"
  by (auto simp: find_one_def find_None_iff filter_empty_conv)

lemma find_one_append_match:
  "map_of doc ''email'' = Some e \<Longrightarrow> find_one (c @ [doc]) e \<noteq> None"
  by (auto simp: find_one_def find_None_iff)

lemma create_access_token_sub:
  "create_access_token P clock [(''sub'', PStr e)] =
     Inr (JWS ALGORITHM (SECRET_KEY P) [(''sub'', PStr e), (''exp'', PInt (timegm clock))])"
  by (simp add: create_access_token_def to_encode_def dict_update_def jwt_encode_def
      int_date_def ALGORITHM_def jws_algorithms_def)

lemma validate_claims_sub_exp:
  "validate_claims now [(''sub'', PStr e), (''exp'', PInt n)] =
     (if n < now then Inl JWTError else Inr ())"
  by (simp add: validate_claims_def validate_iat_def validate_nbf_def validate_exp_def
      validate_aud_def validate_text_claim_def validate_at_hash_def is_str_def)

text \<open>
  A token issued at \<open>clock\<close> and decoded at \<open>clock'\<close> is accepted exactly while the clock
  shows the second of its issue.
\<close>

lemma issued_token_decode:
  "jwt_decode clock'
       (JWS ALGORITHM (SECRET_KEY P) [(''sub'', PStr e), (''exp'', PInt (timegm clock))])
       (SECRET_KEY P) [ALGORITHM] =
     (if timegm clock < timegm clock' then Inl JWTError
      else Inr [(''sub'', PStr e), (''exp'', PInt (timegm clock))])"
  by (simp add: jwt_decode_def validate_claims_sub_exp)

lemma user_doc_email:
  "map_of (user_doc payload h t1 t2) ''email'' = Some (PStr (reg_email payload))"
  by (simp add: user_doc_def)

lemma user_doc_no_id: "map_of (user_doc payload h t1 t2) ''_id'' = None"
  by (simp add: user_doc_def)

lemma with_id_user_doc:
  "with_id (user_doc payload h t1 t2) oid = user_doc payload h t1 t2 @ [(''_id'', PObjectId oid)]"
  by (simp add: with_id_def user_doc_no_id)

section \<open>Registration\<close>

lemma register_found:
  assumes "get_user_by_email d (PStr (reg_email payload)) = Inr (Some u)"
  shows "register P fx others d payload = (Inl (HTTPException 400 DETAIL_EMAIL_REGISTERED), d)"
proof -
  from assms obtain c where "d = Some c" "find_one c (PStr (reg_email payload)) = Some u"
    by (auto simp: get_user_by_email_def split: option.splits)
  then have "found (Some u)" by (simp add: find_one_found)
  with assms show ?thesis by (simp add: register_def)
qed

lemma register_fresh:
  assumes "find_one c (PStr (reg_email payload)) = None"
    and "find_one (others c) (PStr (reg_email payload)) = None"
    and "hash_password P (entropy fx) (reg_password payload) = Inr h"
  shows "register P fx others (Some c) payload =
     (Inr \<lparr>access_token = JWS ALGORITHM (SECRET_KEY P)
              [(''sub'', PStr (reg_email payload)), (''exp'', PInt (timegm (clock_token fx)))],
           token_type = ''bearer''\<rparr>,
      Some (others c @ [user_doc payload h (clock_created fx) (clock_updated fx)
                         @ [(''_id'', PObjectId (fresh_oid fx))]]))"
  using assms
  by (simp add: register_def get_user_by_email_def found_def insert_one_def user_doc_email
      with_id_user_doc create_access_token_sub)

lemma register_conflict:
  assumes "find_one c (PStr (reg_email payload)) = None"
    and "find_one (others c) (PStr (reg_email payload)) \<noteq> None"
    and "hash_password P (entropy fx) (reg_password payload) = Inr h"
  shows "register P fx others (Some c) payload = (Inl DuplicateKeyError, Some (others c))"
  using assms
  by (simp add: register_def get_user_by_email_def found_def insert_one_def user_doc_email)

text \<open>
  C4, as amended. An email that the check before the insert finds is refused with status
  400 and the store is left as it was. Run one after the other, the first registration of an
  email succeeds and the second is refused with status 400, and the store then holds the
  email once. When the check passes and the insert itself reports the conflict (a
  concurrent request stored the email in between), nothing is written, and the store's
  \<open>DuplicateKeyError\<close> is what the call raises: it is not turned into the status 400.
\<close>

theorem register_duplicate_email:
  "(get_user_by_email d (PStr (reg_email payload)) = Inr (Some u) \<longrightarrow>
      register P fx others d payload = (Inl (HTTPException 400 DETAIL_EMAIL_REGISTERED), d))
   \<and> (find_one c (PStr (reg_email payload)) = None
        \<and> hash_password P (entropy fx) (reg_password payload) = Inr h
        \<and> reg_email payload' = reg_email payload \<longrightarrow>
      (\<exists>resp c'. register P fx id (Some c) payload = (Inr resp, Some c')
         \<and> register P fx' others' (Some c') payload' =
             (Inl (HTTPException 400 DETAIL_EMAIL_REGISTERED), Some c')
         \<and> length (filter (\<lambda>doc. map_of doc ''email'' = Some (PStr (reg_email payload))) c') = 1))
   \<and> (find_one c (PStr (reg_email payload)) = None
        \<and> find_one (others c) (PStr (reg_email payload)) \<noteq> None
        \<and> hash_password P (entropy fx) (reg_password payload) = Inr h \<longrightarrow>
      register P fx others (Some c) payload = (Inl DuplicateKeyError, Some (others c)))"
proof (intro conjI impI)
  assume "get_user_by_email d (PStr (reg_email payload)) = Inr (Some u)"
  then show "register P fx others d payload = (Inl (HTTPException 400 DETAIL_EMAIL_REGISTERED), d)"
    by (rule register_found)
next
  assume a: "find_one c (PStr (reg_email payload)) = None
        \<and> hash_password P (entropy fx) (reg_password payload) = Inr h
        \<and> reg_email payload' = reg_email payload"
  let ?doc = "user_doc payload h (clock_created fx) (clock_updated fx)
                @ [(''_id'', PObjectId (fresh_oid fx))]"
  let ?c' = "c @ [?doc]"
  have first: "register P fx id (Some c) payload =
     (Inr \<lparr>access_token = JWS ALGORITHM (SECRET_KEY P)
              [(''sub'', PStr (reg_email payload)), (''exp'', PInt (timegm (clock_token fx)))],
           token_type = ''bearer''\<rparr>, Some ?c')"
    using a register_fresh [of c payload id P fx h] by simp
  have m: "map_of ?doc ''email'' = Some (PStr (reg_email payload))"
    by (simp add: user_doc_def)
  then have "find_one ?c' (PStr (reg_email payload')) \<noteq> None"
    using a find_one_append_match by simp
  then obtain u where "get_user_by_email (Some ?c') (PStr (reg_email payload')) = Inr (Some u)"
    by (auto simp: get_user_by_email_def)
  then have second: "register P fx' others' (Some ?c') payload' =
             (Inl (HTTPException 400 DETAIL_EMAIL_REGISTERED), Some ?c')"
    by (rule register_found)
  have once: "length (filter (\<lambda>doc. map_of doc ''email'' = Some (PStr (reg_email payload))) ?c') = 1"
    using a m by (simp add: find_one_None_filter)
  from first second once
  show "\<exists>resp c'. register P fx id (Some c) payload = (Inr resp, Some c')
         \<and> register P fx' others' (Some c') payload' =
             (Inl (HTTPException 400 DETAIL_EMAIL_REGISTERED), Some c')
         \<and> length (filter (\<lambda>doc. map_of doc ''email'' = Some (PStr (reg_email payload))) c') = 1"
    by blast
next
  assume "find_one c (PStr (reg_email payload)) = None
        \<and> find_one (others c) (PStr (reg_email payload)) \<noteq> None
        \<and> hash_password P (entropy fx) (reg_password payload) = Inr h"
  then show "register P fx others (Some c) payload = (Inl DuplicateKeyError, Some (others c))"
    using register_conflict by blast
qed

text \<open>The stand-in hasher on the example request.\<close>

lemma sample_hash_alice:
  "hash_password sample_platform (entropy sample_effects) (reg_password alice_request) =
     Inr ''$2b$12$abcdefghijklmnopqrstuv.321wp''"
  by (simp add: hash_password_def pwd_context_hash_def sample_platform_def sample_hash_def
      sample_effects_def alice_request_def)

text \<open>
  The three cases of \<open>register_duplicate_email\<close> on the example request: the rival's
  document is in the store at the check; the store is empty and the request runs twice; the
  rival's document arrives between the check and the insert.
\<close>

theorem register_duplicate_email_witness:
  "get_user_by_email (Some [rival_doc]) (PStr (reg_email alice_request)) = Inr (Some rival_doc)
   \<and> register sample_platform sample_effects (\<lambda>c. c @ [rival_doc]) (Some [rival_doc]) alice_request =
       (Inl (HTTPException 400 DETAIL_EMAIL_REGISTERED), Some [rival_doc])
   \<and> find_one [] (PStr (reg_email alice_request)) = None
   \<and> hash_password sample_platform (entropy sample_effects) (reg_password alice_request) =
       Inr ''$2b$12$abcdefghijklmnopqrstuv.321wp''
   \<and> (\<exists>resp c'. register sample_platform sample_effects id (Some []) alice_request = (Inr resp, Some c')
         \<and> register sample_platform sample_effects id (Some c') alice_request =
             (Inl (HTTPException 400 DETAIL_EMAIL_REGISTERED), Some c')
         \<and> length (filter (\<lambda>doc. map_of doc ''email'' = Some (PStr (reg_email alice_request))) c') = 1)
   \<and> find_one ((\<lambda>c. c @ [rival_doc]) []) (PStr (reg_email alice_request)) \<noteq> None
   \<and> register sample_platform sample_effects (\<lambda>c. c @ [rival_doc]) (Some []) alice_request =
       (Inl DuplicateKeyError, Some [rival_doc])"
proof -
  have g: "get_user_by_email (Some [rival_doc]) (PStr (reg_email alice_request)) = Inr (Some rival_doc)"
    by (simp add: get_user_by_email_def find_one_def rival_doc_def alice_request_def)
  have n: "find_one [] (PStr (reg_email alice_request)) = None"
    by (simp add: find_one_def)
  have r: "find_one ((\<lambda>c. c @ [rival_doc]) []) (PStr (reg_email alice_request)) \<noteq> None"
    by (simp add: find_one_def rival_doc_def alice_request_def)
  note h = sample_hash_alice
  from g n r h
    register_duplicate_email [where d = "Some [rival_doc]" and payload = alice_request
      and u = rival_doc and P = sample_platform and fx = sample_effects and others = "\<lambda>c. c @ [rival_doc]"
      and c = "[]" and h = "''$2b$12$abcdefghijklmnopqrstuv.321wp''" and payload' = alice_request
      and fx' = sample_effects and others' = id]
  show ?thesis by simp
qed

text \<open>
  C4 as stated fails on the second detection path. The store is empty at the check and
  holds the rival's document at the insert: the call ends in the store's
  \<open>DuplicateKeyError\<close>, which the framework answers with status 500, not in the
  \<open>HTTPException\<close> with status 400.
\<close>

theorem register_insert_conflict_counterexample:
  "fst (register sample_platform sample_effects (\<lambda>c. c @ [rival_doc]) (Some []) alice_request) =
     Inl DuplicateKeyError
   \<and> fst (register sample_platform sample_effects (\<lambda>c. c @ [rival_doc]) (Some []) alice_request) \<noteq>
       Inl (HTTPException 400 DETAIL_EMAIL_REGISTERED)
   \<and> http_status DuplicateKeyError = 500"
proof -
  have "find_one [] (PStr (reg_email alice_request)) = None"
    by (simp add: find_one_def)
  moreover have "find_one ((\<lambda>c. c @ [rival_doc]) []) (PStr (reg_email alice_request)) \<noteq> None"
    by (simp add: find_one_def rival_doc_def alice_request_def)
  ultimately have "register sample_platform sample_effects (\<lambda>c. c @ [rival_doc]) (Some []) alice_request =
      (Inl DuplicateKeyError, Some ((\<lambda>c. c @ [rival_doc]) []))"
    using sample_hash_alice by (rule register_conflict)
  then show ?thesis by simp
qed

section \<open>Token issuance\<close>

text \<open>
  C2 as stated fails: the claim set signed for the subject \<^verbatim>\<open>a@x.com\<close> holds \<open>sub\<close>
  and \<open>exp\<close>; it has no \<open>iat\<close>, and an expiration claim is set.
\<close>

theorem create_access_token_claims_counterexample:
  "create_access_token sample_platform 100500000 [(''sub'', PStr ''a@x.com'')] =
     Inr (JWS ''HS256'' ''dev-secret-key-change-me''
            [(''sub'', PStr ''a@x.com''), (''exp'', PInt 100)])
   \<and> map_of [(''sub'', PStr ''a@x.com''), (''exp'', PInt 100)] ''iat'' = None
   \<and> map_of [(''sub'', PStr ''a@x.com''), (''exp'', PInt 100)] ''exp'' = Some (PInt 100)"
  by (simp add: create_access_token_sub ALGORITHM_def sample_platform_def timegm_def)

text \<open>
  C2, as amended. For every subject the claim set that \<open>create_access_token\<close> signs is
  the subject under \<open>sub\<close> followed by one integer timestamp under \<open>exp\<close>, and nothing
  else: no \<open>iat\<close> claim is set.
\<close>

theorem create_access_token_claim_set:
  "\<exists>t n. create_access_token P clock [(''sub'', PStr e)] = Inr t
     \<and> signed_claims t = [(''sub'', PStr e), (''exp'', PInt n)]
     \<and> map fst (signed_claims t) = [''sub'', ''exp'']
     \<and> ''iat'' \<notin> set (map fst (signed_claims t))"
proof -
  let ?t = "JWS ALGORITHM (SECRET_KEY P) [(''sub'', PStr e), (''exp'', PInt (timegm clock))]"
  have enc: "create_access_token P clock [(''sub'', PStr e)] = Inr ?t"
    by (rule create_access_token_sub)
  have cl: "signed_claims ?t = [(''sub'', PStr e), (''exp'', PInt (timegm clock))]"
    by (simp add: signed_claims_def)
  have ks: "map fst (signed_claims ?t) = [''sub'', ''exp'']"
    by (simp add: cl)
  have no: "''iat'' \<notin> set (map fst (signed_claims ?t))"
    unfolding ks by simp
  show ?thesis
  proof (intro exI conjI)
    show "create_access_token P clock [(''sub'', PStr e)] = Inr ?t" by (rule enc)
    show "signed_claims ?t = [(''sub'', PStr e), (''exp'', PInt (timegm clock))]" by (rule cl)
    show "map fst (signed_claims ?t) = [''sub'', ''exp'']" by (rule ks)
    show "''iat'' \<notin> set (map fst (signed_claims ?t))" by (rule no)
  qed
qed

text \<open>
  C1 fails on the code. \<open>create_access_token\<close> sets \<open>exp\<close> to the instant of issue;
  \<open>ACCESS_TOKEN_EXPIRE_MINUTES\<close> is declared and never added. A token issued at
  100.5 s and presented at 101.0 s is refused by \<open>jwt_decode\<close> as expired, and
  \<^verbatim>\<open>/me\<close> answers 401 whatever the store holds.
\<close>

theorem issued_token_rejected_next_second:
  "create_access_token P 100500000 [(''sub'', PStr ''a@x.com'')] =
     Inr (JWS ALGORITHM (SECRET_KEY P) [(''sub'', PStr ''a@x.com''), (''exp'', PInt 100)])
   \<and> jwt_decode 101000000
        (JWS ALGORITHM (SECRET_KEY P) [(''sub'', PStr ''a@x.com''), (''exp'', PInt 100)])
        (SECRET_KEY P) [ALGORITHM] = Inl JWTError
   \<and> me P 101000000 d
        \<lparr>payload_token =
           JWS ALGORITHM (SECRET_KEY P) [(''sub'', PStr ''a@x.com''), (''exp'', PInt 100)]\<rparr> =
       Inl (HTTPException 401 ''Invalid token'')"
proof -
  have t: "timegm 100500000 = 100" "timegm 101000000 = 101"
    by (simp_all add: timegm_def)
  have dec: "jwt_decode 101000000
        (JWS ALGORITHM (SECRET_KEY P) [(''sub'', PStr ''a@x.com''), (''exp'', PInt 100)])
        (SECRET_KEY P) [ALGORITHM] = Inl JWTError"
    using issued_token_decode [of 101000000 P "''a@x.com''" 100500000] by (simp add: t)
  show ?thesis
    using dec create_access_token_sub [of P 100500000 "''a@x.com''"]
    by (simp add: t me_def me_subject_def)
qed

section \<open>Login\<close>

text \<open>
  C3 fails on the code. \<open>login\<close> replaces a missing \<open>password_hash\<close> by the empty text,
  which the password context does not answer with \<open>False\<close>: it raises
  \<open>UnknownHashError\<close>, \<open>verify_password\<close> and \<open>login\<close> catch nothing, and the caller
  receives status 500 instead of 401.
\<close>

theorem login_unknown_hash_error:
  "verify_password P p (PStr []) = Inl UnknownHashError
   \<and> login P clock (Some [rival_doc]) \<lparr>login_email = ''a@x.com'', login_password = p\<rparr> =
       Inl UnknownHashError
   \<and> http_status UnknownHashError = 500"
  by (simp add: verify_password_def pwd_context_verify_def bcrypt_identify_def bcrypt_idents_def
      login_def get_user_by_email_def find_one_def found_def dict_get_default_def rival_doc_def)

text \<open>
  C5. A login with an email that no document carries and a login with a stored email and a
  password that the stored hash does not verify end in the same exception: status 401 with
  the same detail text. Nothing in the response tells the two causes apart.
\<close>

theorem login_failures_identical:
  assumes "get_user_by_email d1 (PStr (login_email p1)) = Inr None"
    and "get_user_by_email d2 (PStr (login_email p2)) = Inr (Some user)"
    and "verify_password P (login_password p2)
           (dict_get_default user ''password_hash'' (PStr [])) = Inr False"
  shows "login P c1 d1 p1 = Inl (HTTPException 401 DETAIL_BAD_LOGIN)
       \<and> login P c2 d2 p2 = Inl (HTTPException 401 DETAIL_BAD_LOGIN)
       \<and> login P c1 d1 p1 = login P c2 d2 p2"
proof -
  have l1: "login P c1 d1 p1 = Inl (HTTPException 401 DETAIL_BAD_LOGIN)"
    using assms(1) by (simp add: login_def found_def)
  from assms(2) obtain c where "d2 = Some c" "find_one c (PStr (login_email p2)) = Some user"
    by (auto simp: get_user_by_email_def split: option.splits)
  then have "found (Some user)" by (simp add: find_one_found)
  then have l2: "login P c2 d2 p2 = Inl (HTTPException 401 DETAIL_BAD_LOGIN)"
    using assms(2,3) by (simp add: login_def)
  from l1 l2 show ?thesis by simp
qed

text \<open>
  On the store that holds Alice's document: \<^verbatim>\<open>b@x.com\<close> is unknown, and \<^verbatim>\<open>pw124\<close>
  is not Alice's password.
\<close>

theorem login_failures_identical_witness:
  "get_user_by_email (Some [alice_doc]) (PStr (login_email \<lparr>login_email = ''b@x.com'', login_password = ''pw123''\<rparr>)) = Inr None
   \<and> get_user_by_email (Some [alice_doc]) (PStr (login_email \<lparr>login_email = ''a@x.com'', login_password = ''pw124''\<rparr>)) = Inr (Some alice_doc)
   \<and> verify_password sample_platform (login_password \<lparr>login_email = ''a@x.com'', login_password = ''pw124''\<rparr>)
           (dict_get_default alice_doc ''password_hash'' (PStr [])) = Inr False
   \<and> login sample_platform 7 (Some [alice_doc]) \<lparr>login_email = ''b@x.com'', login_password = ''pw123''\<rparr>
        = Inl (HTTPException 401 DETAIL_BAD_LOGIN)
   \<and> login sample_platform 7 (Some [alice_doc]) \<lparr>login_email = ''a@x.com'', login_password = ''pw124''\<rparr>
        = Inl (HTTPException 401 DETAIL_BAD_LOGIN)
   \<and> login sample_platform 7 (Some [alice_doc]) \<lparr>login_email = ''b@x.com'', login_password = ''pw123''\<rparr>
        = login sample_platform 7 (Some [alice_doc]) \<lparr>login_email = ''a@x.com'', login_password = ''pw124''\<rparr>"
proof -
  have a: "get_user_by_email (Some [alice_doc]) (PStr (login_email \<lparr>login_email = ''b@x.com'', login_password = ''pw123''\<rparr>)) = Inr None"
    by (simp add: get_user_by_email_def find_one_def alice_doc_def)
  have b: "get_user_by_email (Some [alice_doc]) (PStr (login_email \<lparr>login_email = ''a@x.com'', login_password = ''pw124''\<rparr>)) = Inr (Some alice_doc)"
    by (simp add: get_user_by_email_def find_one_def alice_doc_def)
  have c: "verify_password sample_platform (login_password \<lparr>login_email = ''a@x.com'', login_password = ''pw124''\<rparr>)
           (dict_get_default alice_doc ''password_hash'' (PStr [])) = Inr False"
    by (simp add: verify_password_def pwd_context_verify_def dict_get_default_def alice_doc_def
        bcrypt_identify_def bcrypt_idents_def sample_platform_def sample_verify_def)
  from a b c login_failures_identical [OF a b c, of 7 7]
  show ?thesis by simp
qed

section \<open>Registration writes the user record\<close>

text \<open>The example request on the empty store, run alone.\<close>

lemma register_alice:
  "register sample_platform sample_effects id (Some []) alice_request =
     (Inr \<lparr>access_token = JWS ''HS256'' ''dev-secret-key-change-me''
              [(''sub'', PStr ''a@x.com''), (''exp'', PInt 1)],
           token_type = ''bearer''\<rparr>,
      Some [alice_doc])"
proof -
  have "find_one [] (PStr (reg_email alice_request)) = None"
    by (simp add: find_one_def)
  then have "register sample_platform sample_effects id (Some []) alice_request =
     (Inr \<lparr>access_token = JWS ALGORITHM (SECRET_KEY sample_platform)
              [(''sub'', PStr (reg_email alice_request)),
               (''exp'', PInt (timegm (clock_token sample_effects)))],
           token_type = ''bearer''\<rparr>,
      Some (id [] @ [user_doc alice_request ''$2b$12$abcdefghijklmnopqrstuv.321wp''
                       (clock_created sample_effects) (clock_updated sample_effects)
                         @ [(''_id'', PObjectId (fresh_oid sample_effects))]]))"
    using sample_hash_alice by (intro register_fresh) simp_all
  then show ?thesis
    by (simp add: ALGORITHM_def sample_platform_def alice_request_def sample_effects_def
        timegm_def user_doc_def alice_doc_def)
qed

text \<open>A registration that succeeds has hashed the password and appended one document.\<close>

lemma register_Inr:
  assumes "register P fx others d payload = (Inr resp, d')"
  shows "\<exists>c h. d = Some c
       \<and> hash_password P (entropy fx) (reg_password payload) = Inr h
       \<and> d' = Some (others c @ [user_doc payload h (clock_created fx) (clock_updated fx)
                                  @ [(''_id'', PObjectId (fresh_oid fx))]])"
proof -
  from assms obtain c where c: "d = Some c"
    by (cases d) (auto simp: register_def get_user_by_email_def)
  from assms c obtain h where h: "hash_password P (entropy fx) (reg_password payload) = Inr h"
    by (auto simp: register_def get_user_by_email_def split: sum.splits if_splits)
  from assms c h have "d' = Some (others c @ [user_doc payload h (clock_created fx) (clock_updated fx)
                                  @ [(''_id'', PObjectId (fresh_oid fx))]])"
    by (auto simp: register_def get_user_by_email_def insert_one_def user_doc_email
        with_id_user_doc split: sum.splits if_splits)
  with c h show ?thesis by blast
qed

text \<open>
  C7, as amended. Every successful registration appends one document to the store. Its
  fields are the email, the hash that the password hasher returned for the given password
  (under \<open>password_hash\<close>; no field holds the password itself), the nickname, the avatar
  URL, \<open>roles\<close> equal to \<^verbatim>\<open>["player"]\<close>, \<open>created_at\<close> and \<open>updated_at\<close> set to the
  clock readings taken during the call, and the identifier given by the store. No
  \<open>is_active\<close> field is written.
\<close>

theorem register_written_record:
  assumes "register P fx others d payload = (Inr resp, d')"
  shows "\<exists>c h doc. d = Some c \<and> d' = Some (others c @ [doc])
       \<and> hash_password P (entropy fx) (reg_password payload) = Inr h
       \<and> map fst doc = [''email'', ''password_hash'', ''nickname'', ''avatar_url'', ''roles'',
                         ''created_at'', ''updated_at'', ''_id'']
       \<and> map_of doc ''email'' = Some (PStr (reg_email payload))
       \<and> map_of doc ''password_hash'' = Some (PStr h)
       \<and> map_of doc ''nickname'' = Some (PStr (reg_nickname payload))
       \<and> map_of doc ''roles'' = Some (PList [PStr ''player''])
       \<and> map_of doc ''created_at'' = Some (PDatetime (clock_created fx))
       \<and> map_of doc ''updated_at'' = Some (PDatetime (clock_updated fx))
       \<and> map_of doc ''is_active'' = None"
proof -
  from register_Inr [OF assms] obtain c h where c: "d = Some c"
    and h: "hash_password P (entropy fx) (reg_password payload) = Inr h"
    and d': "d' = Some (others c @ [user_doc payload h (clock_created fx) (clock_updated fx)
                                  @ [(''_id'', PObjectId (fresh_oid fx))]])"
    by blast
  let ?doc = "user_doc payload h (clock_created fx) (clock_updated fx)
                @ [(''_id'', PObjectId (fresh_oid fx))]"
  show ?thesis
  proof (intro exI conjI)
    show "d = Some c" by (rule c)
    show "d' = Some (others c @ [?doc])" by (rule d')
    show "hash_password P (entropy fx) (reg_password payload) = Inr h" by (rule h)
    show "map fst ?doc = [''email'', ''password_hash'', ''nickname'', ''avatar_url'', ''roles'',
                         ''created_at'', ''updated_at'', ''_id'']" by (simp add: user_doc_def)
    show "map_of ?doc ''email'' = Some (PStr (reg_email payload))" by (simp add: user_doc_def)
    show "map_of ?doc ''password_hash'' = Some (PStr h)" by (simp add: user_doc_def)
    show "map_of ?doc ''nickname'' = Some (PStr (reg_nickname payload))" by (simp add: user_doc_def)
    show "map_of ?doc ''roles'' = Some (PList [PStr ''player''])" by (simp add: user_doc_def)
    show "map_of ?doc ''created_at'' = Some (PDatetime (clock_created fx))" by (simp add: user_doc_def)
    show "map_of ?doc ''updated_at'' = Some (PDatetime (clock_updated fx))" by (simp add: user_doc_def)
    show "map_of ?doc ''is_active'' = None" by (simp add: user_doc_def)
  qed
qed

theorem register_written_record_witness:
  "register sample_platform sample_effects id (Some []) alice_request =
     (Inr \<lparr>access_token = JWS ''HS256'' ''dev-secret-key-change-me''
              [(''sub'', PStr ''a@x.com''), (''exp'', PInt 1)],
           token_type = ''bearer''\<rparr>,
      Some [alice_doc])
   \<and> (\<exists>c h doc. Some [] = Some c \<and> Some [alice_doc] = Some (id c @ [doc])
       \<and> hash_password sample_platform (entropy sample_effects) (reg_password alice_request) = Inr h
       \<and> map fst doc = [''email'', ''password_hash'', ''nickname'', ''avatar_url'', ''roles'',
                         ''created_at'', ''updated_at'', ''_id'']
       \<and> map_of doc ''email'' = Some (PStr (reg_email alice_request))
       \<and> map_of doc ''password_hash'' = Some (PStr h)
       \<and> map_of doc ''nickname'' = Some (PStr (reg_nickname alice_request))
       \<and> map_of doc ''roles'' = Some (PList [PStr ''player''])
       \<and> map_of doc ''created_at'' = Some (PDatetime (clock_created sample_effects))
       \<and> map_of doc ''updated_at'' = Some (PDatetime (clock_updated sample_effects))
       \<and> map_of doc ''is_active'' = None)"
  using register_alice register_written_record [OF register_alice]
  by (intro conjI)

text \<open>
  C7 as stated fails on \<open>is_active\<close>: the document that the example registration writes
  has no such field, so it does not hold the value \<open>True\<close> there.
\<close>

theorem register_is_active_counterexample:
  "snd (register sample_platform sample_effects id (Some []) alice_request) = Some [alice_doc]
   \<and> map_of alice_doc ''is_active'' = None
   \<and> map_of alice_doc ''is_active'' \<noteq> Some (PBool True)"
  using register_alice by (simp add: alice_doc_def)

text \<open>
  C8 fails on the code. \<^verbatim>\<open>RegisterRequest\<close> declares \<open>nickname\<close> as plain text and
  \<open>register\<close> writes the document without the \<^verbatim>\<open>Playeruser\<close> schema, whose bounds of 3
  and 32 are checked nowhere: a registration with the two-character nickname \<^verbatim>\<open>ab\<close>
  succeeds and the store holds it.
\<close>

theorem register_short_nickname:
  "register sample_platform sample_effects id (Some [])
      \<lparr>reg_email = ''b@x.com'', reg_password = ''pw123'', reg_nickname = ''ab'',
       reg_avatar_url = None\<rparr> =
     (Inr \<lparr>access_token = JWS ''HS256'' ''dev-secret-key-change-me''
              [(''sub'', PStr ''b@x.com''), (''exp'', PInt 1)],
           token_type = ''bearer''\<rparr>,
      Some [[(''email'', PStr ''b@x.com''),
             (''password_hash'', PStr ''$2b$12$abcdefghijklmnopqrstuv.321wp''),
             (''nickname'', PStr ''ab''),
             (''avatar_url'', PNone),
             (''roles'', PList [PStr ''player'']),
             (''created_at'', PDatetime 1000000),
             (''updated_at'', PDatetime 1000007),
             (''_id'', PObjectId ''65a0c0ffee'')]])
   \<and> length ''ab'' < (3::nat)"
  by (simp add: register_def get_user_by_email_def find_one_def found_def hash_password_def
      pwd_context_hash_def sample_platform_def sample_hash_def sample_effects_def
      insert_one_def user_doc_def with_id_def create_access_token_def to_encode_def
      dict_update_def jwt_encode_def int_date_def ALGORITHM_def jws_algorithms_def timegm_def)

section \<open>Resolving a token to a profile\<close>

lemma list_str_field_PList:
  "list_str_field v = Some r \<Longrightarrow> v = PList (map PStr r)"
proof -
  assume a: "list_str_field v = Some r"
  then obtain xs where v: "v = PList xs" and all: "list_all is_str xs"
    and r: "r = List.map_filter str_field xs"
    by (auto simp: list_str_field_def split: pyval.splits if_splits)
  have "list_all is_str xs \<Longrightarrow> map PStr (List.map_filter str_field xs) = xs"
    by (induction xs) (auto simp: List.map_filter_simps is_str_def str_field_def split: pyval.splits)
  with all v r show ?thesis by simp
qed

lemma new_ProfileResponse_Inr:
  assumes "new_ProfileResponse P i e n a r = Inr p"
  shows "profile_id p = i
       \<and> email_field P e = Some (profile_email p)
       \<and> n = PStr (profile_nickname p)
       \<and> optional_str_field a = Some (profile_avatar_url p)
       \<and> r = PList (map PStr (profile_roles p))"
proof -
  from assms obtain e' n' a' r' where f: "email_field P e = Some e'" "str_field n = Some n'"
      "optional_str_field a = Some a'" "list_str_field r = Some r'"
    and p: "p = \<lparr>profile_id = i, profile_email = e', profile_nickname = n',
               profile_avatar_url = a', profile_roles = r'\<rparr>"
    by (auto simp: new_ProfileResponse_def split: option.splits)
  from f(2) have "n = PStr n'" by (auto simp: str_field_def split: pyval.splits)
  moreover from f(4) have "r = PList (map PStr r')" by (rule list_str_field_PList)
  ultimately show ?thesis using f p by simp
qed

lemma profile_body_keys:
  "map fst (profile_body p) = [''id'', ''email'', ''nickname'', ''avatar_url'', ''roles'']"
  by (simp add: profile_body_def)

lemma me_Inr_stored:
  assumes "me P clock d payload = Inr p"
  shows "\<exists>c user. d = Some c \<and> user \<in> set c \<and> user_to_profile P user = Inr p"
proof -
  from assms obtain email where "me_subject P clock payload = Inr email"
    by (auto simp: me_def split: sum.splits)
  with assms obtain u where g: "get_user_by_email d email = Inr u"
    by (auto simp: me_def split: sum.splits)
  with assms \<open>me_subject P clock payload = Inr email\<close>
  obtain user where u: "u = Some user" and up: "user_to_profile P user = Inr p"
    by (auto simp: me_def split: option.splits if_splits)
  from g u obtain c where c: "d = Some c" "find_one c email = Some user"
    by (auto simp: get_user_by_email_def split: option.splits)
  then have "user \<in> set c" by (auto simp: find_one_def find_Some_iff)
  with c up show ?thesis by blast
qed

text \<open>
  A document as \<open>register\<close> writes it always has a profile, provided the email validator
  accepts the stored email again.
\<close>

lemma user_to_profile_user_doc:
  assumes "email_validator P (reg_email payload) = Some e"
  shows "user_to_profile P (user_doc payload h t1 t2 @ [(''_id'', PObjectId oid)]) =
     Inr \<lparr>profile_id = py_str P (PObjectId oid), profile_email = e,
          profile_nickname = reg_nickname payload,
          profile_avatar_url = reg_avatar_url payload, profile_roles = [''player'']\<rparr>"
  using assms
  by (cases "reg_avatar_url payload")
     (simp_all add: user_to_profile_def new_ProfileResponse_def user_doc_def dict_get_def
       dict_get_default_def email_field_def str_field_def optional_str_field_def
       list_str_field_def is_str_def List.map_filter_simps)

text \<open>
  C6. Whenever \<open>user_to_profile\<close> returns a profile for a document, whatever the document
  holds, the body written for it has exactly the five fields \<open>id\<close>, \<open>email\<close>,
  \<open>nickname\<close>, \<open>avatar_url\<close> and \<open>roles\<close>, in particular no \<open>password_hash\<close>, and
  each field is the projection of the document: the text of its \<open>_id\<close>, its validated
  email, its nickname, its avatar URL and its roles (\<^verbatim>\<open>["player"]\<close> when it has none).
  Every profile that \<^verbatim>\<open>/me\<close> returns is such a projection of a stored document.
\<close>

theorem profile_is_projection:
  "(user_to_profile P doc = Inr p \<longrightarrow>
      map fst (profile_body p) = [''id'', ''email'', ''nickname'', ''avatar_url'', ''roles'']
      \<and> map_of (profile_body p) ''password_hash'' = None
      \<and> profile_id p = py_str P (dict_get doc ''_id'')
      \<and> email_field P (dict_get doc ''email'') = Some (profile_email p)
      \<and> dict_get doc ''nickname'' = PStr (profile_nickname p)
      \<and> optional_str_field (dict_get doc ''avatar_url'') = Some (profile_avatar_url p)
      \<and> dict_get_default doc ''roles'' (PList [PStr ''player'']) = PList (map PStr (profile_roles p)))
   \<and> (me P clock d payload = Inr p \<longrightarrow>
      (\<exists>c user. d = Some c \<and> user \<in> set c \<and> user_to_profile P user = Inr p))"
proof (intro conjI impI)
  assume "me P clock d payload = Inr p"
  then show "\<exists>c user. d = Some c \<and> user \<in> set c \<and> user_to_profile P user = Inr p"
    by (rule me_Inr_stored)
next
  assume a: "user_to_profile P doc = Inr p"
  show "map fst (profile_body p) = [''id'', ''email'', ''nickname'', ''avatar_url'', ''roles'']"
    by (rule profile_body_keys)
  show "map_of (profile_body p) ''password_hash'' = None"
    by (simp add: profile_body_def)
  from a have n: "new_ProfileResponse P (py_str P (dict_get doc ''_id'')) (dict_get doc ''email'')
       (dict_get doc ''nickname'') (dict_get doc ''avatar_url'')
       (dict_get_default doc ''roles'' (PList [PStr ''player''])) = Inr p"
    by (simp add: user_to_profile_def)
  note f = new_ProfileResponse_Inr [OF n]
  from f show "profile_id p = py_str P (dict_get doc ''_id'')" by simp
  from f show "email_field P (dict_get doc ''email'') = Some (profile_email p)" by simp
  from f show "dict_get doc ''nickname'' = PStr (profile_nickname p)" by simp
  from f show "optional_str_field (dict_get doc ''avatar_url'') = Some (profile_avatar_url p)" by simp
  from f show "dict_get_default doc ''roles'' (PList [PStr ''player'']) = PList (map PStr (profile_roles p))" by simp
qed

text \<open>Alice's document, and the token of her registration presented in the same second.\<close>

lemma user_to_profile_alice:
  "user_to_profile sample_platform alice_doc =
     Inr alice_profile"
  by (simp add: user_to_profile_def new_ProfileResponse_def dict_get_def dict_get_default_def
      alice_doc_def alice_profile_def sample_platform_def sample_str_def sample_email_def email_field_def
      str_field_def optional_str_field_def list_str_field_def is_str_def List.map_filter_simps)

lemma me_alice:
  "me sample_platform 1000999 (Some [alice_doc])
      \<lparr>payload_token = JWS ''HS256'' ''dev-secret-key-change-me''
          [(''sub'', PStr ''a@x.com''), (''exp'', PInt 1)]\<rparr> =
     Inr alice_profile"
proof -
  have t: "timegm 1000042 = 1" "timegm 1000999 = 1"
    by (simp_all add: timegm_def)
  have "jwt_decode 1000999
       (JWS ALGORITHM (SECRET_KEY sample_platform) [(''sub'', PStr ''a@x.com''), (''exp'', PInt 1)])
       (SECRET_KEY sample_platform) [ALGORITHM] = Inr [(''sub'', PStr ''a@x.com''), (''exp'', PInt 1)]"
    using issued_token_decode [of 1000999 sample_platform "''a@x.com''" 1000042] by (simp add: t)
  then have d: "jwt_decode 1000999
       (JWS ''HS256'' ''dev-secret-key-change-me'' [(''sub'', PStr ''a@x.com''), (''exp'', PInt 1)])
       (SECRET_KEY sample_platform) [ALGORITHM] = Inr [(''sub'', PStr ''a@x.com''), (''exp'', PInt 1)]"
    by (simp add: ALGORITHM_def sample_platform_def)
  have g: "get_user_by_email (Some [alice_doc]) (PStr ''a@x.com'') = Inr (Some alice_doc)"
    by (simp add: get_user_by_email_def find_one_def alice_doc_def)
  have f: "found (Some alice_doc)"
    by (simp add: found_def alice_doc_def)
  show ?thesis
    by (simp add: me_def me_subject_def d dict_get_def g f user_to_profile_alice)
qed

theorem profile_is_projection_witness:
  "user_to_profile sample_platform alice_doc = Inr alice_profile
   \<and> map fst (profile_body alice_profile) = [''id'', ''email'', ''nickname'', ''avatar_url'', ''roles'']
   \<and> map_of (profile_body alice_profile) ''password_hash'' = None
   \<and> profile_id alice_profile = py_str sample_platform (dict_get alice_doc ''_id'')
   \<and> email_field sample_platform (dict_get alice_doc ''email'') = Some (profile_email alice_profile)
   \<and> dict_get alice_doc ''nickname'' = PStr (profile_nickname alice_profile)
   \<and> optional_str_field (dict_get alice_doc ''avatar_url'') = Some (profile_avatar_url alice_profile)
   \<and> dict_get_default alice_doc ''roles'' (PList [PStr ''player'']) =
       PList (map PStr (profile_roles alice_profile))
   \<and> me sample_platform 1000999 (Some [alice_doc])
        \<lparr>payload_token = JWS ''HS256'' ''dev-secret-key-change-me''
            [(''sub'', PStr ''a@x.com''), (''exp'', PInt 1)]\<rparr> = Inr alice_profile
   \<and> (\<exists>c user. Some [alice_doc] = Some c \<and> user \<in> set c
         \<and> user_to_profile sample_platform user = Inr alice_profile)"
  using user_to_profile_alice me_alice
    profile_is_projection [where P = sample_platform and doc = alice_doc and p = alice_profile
      and clock = 1000999 and d = "Some [alice_doc]"
      and payload = "\<lparr>payload_token = JWS ''HS256'' ''dev-secret-key-change-me''
            [(''sub'', PStr ''a@x.com''), (''exp'', PInt 1)]\<rparr>"]
  by simp

text \<open>
  C10. A token that \<open>jwt_decode\<close> accepts and whose claim set has no \<open>sub\<close>, or an
  empty one, is answered with status 401 and the detail \<^verbatim>\<open>Invalid token\<close>, as is a
  token signed with another key. The result does not depend on the store, not even on
  whether a database is configured: the lookup is not reached.
\<close>

theorem me_invalid_without_subject:
  "(jwt_decode clock tok (SECRET_KEY P) [ALGORITHM] = Inr decoded
      \<and> \<not> truthy (dict_get decoded ''sub'') \<longrightarrow>
      me P clock d \<lparr>payload_token = tok\<rparr> = Inl (HTTPException 401 ''Invalid token''))
   \<and> (k \<noteq> SECRET_KEY P \<longrightarrow>
      me P clock d \<lparr>payload_token = JWS alg k claims\<rparr> = Inl (HTTPException 401 ''Invalid token''))"
  by (simp add: me_def me_subject_def jwt_decode_def)

text \<open>
  A token signed with the server's key that carries only \<open>exp\<close>, and a token forged with
  another key, both presented while no database is configured.
\<close>

theorem me_invalid_without_subject_witness:
  "jwt_decode 5000000 (JWS ''HS256'' ''dev-secret-key-change-me'' [(''exp'', PInt 9)])
       (SECRET_KEY sample_platform) [ALGORITHM] = Inr [(''exp'', PInt 9)]
   \<and> \<not> truthy (dict_get [(''exp'', PInt 9)] ''sub'')
   \<and> me sample_platform 5000000 None
        \<lparr>payload_token = JWS ''HS256'' ''dev-secret-key-change-me'' [(''exp'', PInt 9)]\<rparr> =
       Inl (HTTPException 401 ''Invalid token'')
   \<and> ''forged'' \<noteq> SECRET_KEY sample_platform
   \<and> me sample_platform 5000000 None
        \<lparr>payload_token = JWS ''HS256'' ''forged'' [(''sub'', PStr ''a@x.com'')]\<rparr> =
       Inl (HTTPException 401 ''Invalid token'')"
proof -
  have a: "jwt_decode 5000000 (JWS ''HS256'' ''dev-secret-key-change-me'' [(''exp'', PInt 9)])
       (SECRET_KEY sample_platform) [ALGORITHM] = Inr [(''exp'', PInt 9)]"
    by (simp add: jwt_decode_def sample_platform_def ALGORITHM_def timegm_def
        validate_claims_def validate_iat_def validate_nbf_def validate_exp_def
        validate_aud_def validate_text_claim_def validate_at_hash_def)
  have b: "\<not> truthy (dict_get [(''exp'', PInt 9)] ''sub'')"
    by (simp add: dict_get_def)
  have c: "''forged'' \<noteq> SECRET_KEY sample_platform"
    by (simp add: sample_platform_def)
  from a b c
    me_invalid_without_subject [where clock = 5000000 and P = sample_platform and d = None
      and tok = "JWS ''HS256'' ''dev-secret-key-change-me'' [(''exp'', PInt 9)]"
      and decoded = "[(''exp'', PInt 9)]" and k = "''forged''" and alg = "''HS256''"
      and claims = "[(''sub'', PStr ''a@x.com'')]"]
  show ?thesis by simp
qed

end
